theory Spec2Isabelle
  imports Main "HOL-Library.Sublist"
begin

section \<open>The debug command of kubectl-debug (pkg/plugin/cmd.go)\<close>

text \<open>
  The command resolves a container of a pod, sets the local terminal up and asks the
  debug agent on the pod's host to start a debug container, relaying the terminal over
  the stream. The embedding follows the Go source function by function. What the
  source does to the outside world (printing, cluster lookups, the terminal, the agent
  connection) is recorded in order in a trace of events carried by an explicit world
  state; what the outside world answers is read from an environment record.
\<close>

subsection \<open>Go values\<close>

text \<open>A Go \<open>error\<close> is modelled by the message that \<open>Error()\<close> returns.\<close>

datatype error = Errorf string

fun message :: "error \<Rightarrow> string" where
  "message (Errorf s) = s"

text \<open>
  A call either returns or panics. \<open>Return None\<close> is the Go result \<open>nil\<close> of a function
  whose result type is \<open>error\<close>.
\<close>

datatype 'a outcome = Panic string | Return 'a

definition nil_dereference :: string where
  "nil_dereference = ''invalid memory address or nil pointer dereference''"

definition index_out_of_range :: string where
  "index_out_of_range = ''index out of range [0] with length 0''"

text \<open>
  \<open>fmt.Sprintf("%d", i)\<close> on a Go \<open>int\<close>. No arithmetic is done on the port in
  the source, only comparisons and this rendering, so the port is an \<open>int\<close>.
\<close>

fun digits :: "nat \<Rightarrow> string" where
  "digits n = (if n < 10 then [''0123456789'' ! n]
               else digits (n div 10) @ [''0123456789'' ! (n mod 10)])"

declare digits.simps [simp del]

definition sprint_d :: "int \<Rightarrow> string" where
  "sprint_d i = (if i < 0 then ''-'' @ digits (nat (- i)) else digits (nat i))"

subsection \<open>Pods (k8s.io/api/core/v1), as far as the source reads them\<close>

record Container =
  ctr_Name :: string

record ContainerStatus =
  cs_Name :: string
  cs_Ready :: bool
  cs_ContainerID :: string

record PodSpec =
  Containers :: "Container list"

text \<open>\<open>PodPhase\<close> is a Go string type; the two constants the source compares with:\<close>

definition PodSucceeded :: string where
  "PodSucceeded = ''Succeeded''"

definition PodFailed :: string where
  "PodFailed = ''Failed''"

record PodStatus =
  Phase :: string
  HostIP :: string
  ContainerStatuses :: "ContainerStatus list"

record Pod =
  Spec :: PodSpec
  Status :: PodStatus

subsection \<open>Streams, terminal, URLs\<close>

text \<open>
  An \<open>io.Reader\<close> or \<open>io.Writer\<close> is named by a number; \<open>None\<close> is the nil
  interface value.
\<close>

type_synonym stream = nat

text \<open>
  The settings of the local terminal device. Raw mode switches echo and line buffering
  off and leaves the other settings as they are.
\<close>

record termios =
  echo :: bool
  line_buffering :: bool
  other_settings :: nat

definition make_raw :: "termios \<Rightarrow> termios" where
  "make_raw m = m\<lparr>echo := False, line_buffering := False\<rparr>"

text \<open>
  \<open>term.TTY\<close> of pkg/util (not among the source files): the three fields that cmd.go
  sets.
\<close>

record TTY =
  tty_In :: "stream option"
  tty_Out :: "stream option"
  tty_Raw :: bool

text \<open>A \<open>remotecommand.TerminalSizeQueue\<close>, named by a number; \<open>None\<close> is nil.\<close>

type_synonym size_queue = nat

text \<open>A \<open>*restclient.Config\<close>, named by a number; \<open>None\<close> is nil.\<close>

type_synonym rest_config = nat

record URL =
  Scheme :: string
  Host :: string
  Path :: string
  RawQuery :: string

text \<open>
  \<open>url.Values\<close> is a Go \<open>map[string][]string\<close>; \<open>Add\<close> appends the value
  to the values of the key.
\<close>

type_synonym Values = "string \<rightharpoonup> string list"

definition Add :: "Values \<Rightarrow> string \<Rightarrow> string \<Rightarrow> Values" where
  "Add v key val = v(key \<mapsto> (case v key of None \<Rightarrow> [val] | Some vals \<Rightarrow> vals @ [val]))"

record StreamOptions =
  so_Stdin :: "stream option"
  so_Stdout :: "stream option"
  so_Stderr :: "stream option"
  so_Tty :: bool
  so_TerminalSizeQueue :: "size_queue option"

text \<open>
  The executor that \<open>remotecommand.NewSPDYExecutor(config, method, url)\<close> returns
  holds the request it was made for.
\<close>

record Executor =
  ex_config :: "rest_config option"
  ex_method :: string
  ex_url :: URL

subsection \<open>Effects\<close>

datatype event =
    Stdout string
    \<comment> \<open>\<open>fmt.Println\<close> / \<open>fmt.Printf\<close> on the standard output of the process\<close>
  | StdoutDump string
    \<comment> \<open>the same, of a Go value whose \<open>%+v\<close> rendering is not modelled: the label only\<close>
  | LogPrintln string
    \<comment> \<open>\<open>log.Println\<close>\<close>
  | Fprint stream string
    \<comment> \<open>\<open>fmt.Fprintf\<close> / \<open>fmt.Fprintln\<close> on a writer\<close>
  | GetPod string string
    \<comment> \<open>\<open>PodClient.Pods(namespace).Get(name)\<close>\<close>
  | MonitorSize TTY
    \<comment> \<open>\<open>t.MonitorSize(t.GetSize())\<close>: starts the task that watches the terminal size\<close>
  | NewSPDYExecutor "rest_config option" string URL
    \<comment> \<open>\<open>remotecommand.NewSPDYExecutor(config, method, url)\<close>: the request handed to the transport\<close>
  | Stream Executor StreamOptions
    \<comment> \<open>\<open>exec.Stream(options)\<close>: the connection to the agent at the executor's URL\<close>

record world =
  tmode :: termios
  trace :: "event list"

definition emit :: "event \<Rightarrow> world \<Rightarrow> world" where
  "emit e w = w\<lparr>trace := trace w @ [e]\<rparr>"

subsection \<open>The options of the command\<close>

text \<open>
  \<open>Config\<close> of pkg/plugin (the debug config file, not among the source files): the
  three fields that \<open>Complete\<close> reads.
\<close>

record Config =
  cfg_AgentPort :: int
  cfg_Image :: string
  cfg_Command :: "string list"

definition empty_Config :: Config where
  "empty_Config = \<lparr>cfg_AgentPort = 0, cfg_Image = [], cfg_Command = []\<rparr>"

type_synonym PodsGetter = "string \<Rightarrow> string \<Rightarrow> error + Pod"

text \<open>
  \<open>DebugOptions\<close>. The field \<open>Flags\<close> is left out: the answers of its config loader
  are part of the environment. \<open>In\<close>, \<open>Out\<close> and \<open>ErrOut\<close> are the embedded
  \<open>genericclioptions.IOStreams\<close>.
\<close>

record DebugOptions =
  Namespace :: string
  PodName :: string
  RetainContainer :: bool
  Image_opt :: string
  ContainerName :: string
  Command :: "string list"
  AgentPort :: int
  ConfigLocation :: string
  PodClient :: "PodsGetter option"
  Args :: "string list"
  Config_opt :: "rest_config option"
  In :: "stream option"
  Out :: "stream option"
  ErrOut :: "stream option"

text \<open>What the collaborators outside cmd.go answer.\<close>

record env =
  loader_Namespace :: "string \<times> error option"
    \<comment> \<open>\<open>configLoader.Namespace()\<close>\<close>
  loader_ClientConfig :: "rest_config option \<times> error option"
    \<comment> \<open>\<open>configLoader.ClientConfig()\<close>\<close>
  NewForConfig :: "rest_config option \<Rightarrow> error + PodsGetter"
    \<comment> \<open>\<open>kubernetes.NewForConfig\<close>, followed by \<open>CoreV1()\<close>\<close>
  user_Current :: "error + string"
    \<comment> \<open>\<open>user.Current()\<close>: the home directory\<close>
  LoadFile :: "string \<Rightarrow> error + Config"
    \<comment> \<open>\<open>LoadFile\<close> of pkg/plugin\<close>
  IsTerminal :: "stream option \<Rightarrow> bool"
    \<comment> \<open>whether a stream is an interactive terminal (\<open>IsTerminalIn\<close> of pkg/util)\<close>
  StdStreams :: "stream \<times> stream \<times> stream"
    \<comment> \<open>\<open>dockerterm.StdStreams()\<close>\<close>
  size_queue_of :: "TTY \<Rightarrow> size_queue option"
    \<comment> \<open>the result of \<open>t.MonitorSize(t.GetSize())\<close>\<close>
  url_Parse :: "string \<Rightarrow> error + URL"
    \<comment> \<open>\<open>url.Parse\<close>\<close>
  Values_Encode :: "Values \<Rightarrow> string"
    \<comment> \<open>\<open>url.Values.Encode\<close>\<close>
  executor_error :: "rest_config option \<Rightarrow> string \<Rightarrow> URL \<Rightarrow> error option"
    \<comment> \<open>the error of \<open>remotecommand.NewSPDYExecutor\<close>, if any\<close>
  stream_result :: "Executor \<Rightarrow> StreamOptions \<Rightarrow> error option outcome"
    \<comment> \<open>how \<open>exec.Stream\<close> ends\<close>

subsection \<open>getContainerIdByName (lines 296-307)\<close>

fun find_status :: "ContainerStatus list \<Rightarrow> string \<Rightarrow> error + string" where
  "find_status [] containerName =
     Inl (Errorf (''cannot find specified container '' @ containerName))"
| "find_status (containerStatus # rest) containerName =
     (if cs_Name containerStatus \<noteq> containerName then find_status rest containerName
      else if \<not> cs_Ready containerStatus
      then Inl (Errorf (''container '' @ containerName @ '' id not ready''))
      else Inr (cs_ContainerID containerStatus))"

definition getContainerIdByName :: "Pod \<Rightarrow> string \<Rightarrow> error + string" where
  "getContainerIdByName pod containerName =
     find_status (ContainerStatuses (Status pod)) containerName"

subsection \<open>Complete (lines 140-210) and Validate (lines 212-220)\<close>

definition defaultImage :: string where
  "defaultImage = ''nicolaka/netshoot:latest''"

definition defaultAgentPort :: int where
  "defaultAgentPort = 10027"

definition defaultConfigLocation :: string where
  "defaultConfigLocation = ''/.kube/debug-config''"

text \<open>
  Lines 160-167: the path of the config file. When no path is given and the current
  user is unknown, the path stays empty.
\<close>

definition Complete_configFile :: "env \<Rightarrow> DebugOptions \<Rightarrow> string" where
  "Complete_configFile env o0 =
     (let configFile = ConfigLocation o0
      in if length (ConfigLocation o0) < 1
         then (case user_Current env of
                 Inr homeDir \<Rightarrow> homeDir @ defaultConfigLocation
               | Inl err \<Rightarrow> configFile)
         else configFile)"

text \<open>Lines 174-196: defaults, config file and user parameters combined.\<close>

definition Complete_defaults :: "Config \<Rightarrow> string list \<Rightarrow> DebugOptions \<Rightarrow> DebugOptions" where
  "Complete_defaults config rest_args o3 =
     (let o4 = o3\<lparr>Command := rest_args\<rparr>;
          o5 = (if length (Command o4) < 1
                then (if length (cfg_Command config) > 0
                      then o4\<lparr>Command := cfg_Command config\<rparr>
                      else o4\<lparr>Command := [''bash'']\<rparr>)
                else o4);
          o6 = (if length (Image_opt o5) < 1
                then (if length (cfg_Image config) > 0
                      then o5\<lparr>Image_opt := cfg_Image config\<rparr>
                      else o5\<lparr>Image_opt := defaultImage\<rparr>)
                else o5)
      in if AgentPort o6 < 1
         then (if cfg_AgentPort config > 0
               then o6\<lparr>AgentPort := cfg_AgentPort config\<rparr>
               else o6\<lparr>AgentPort := defaultAgentPort\<rparr>)
         else o6)"

text \<open>
  \<open>LoadFile\<close> is taken to return a config whenever it returns no error. The two
  diagnostic lines that print the config loader are recorded by their label. The
  parameters \<open>cmd\<close> and \<open>argsLenAtDash\<close> are not used by the body and are left
  out.
\<close>

definition Complete ::
  "env \<Rightarrow> string list \<Rightarrow> DebugOptions \<Rightarrow> world \<Rightarrow> error option \<times> DebugOptions \<times> world" where
  "Complete env args o0 w0 =
     (let w1 = emit (Stdout ''hello i'm here, in cmd/ newDebugCmd / Complete\<newline>'') w0;
          o1 = o0\<lparr>Args := args\<rparr>
      in case args of
           [] \<Rightarrow> (Some (Errorf ''error pod not specified''), o1, w1)
         | pod_arg # rest_args \<Rightarrow>
            (let o2 = o1\<lparr>Namespace := fst (loader_Namespace env)\<rparr>
             in case snd (loader_Namespace env) of
                  Some err \<Rightarrow> (Some err, o2, w1)
                | None \<Rightarrow>
                   (let w2 = emit (StdoutDump ''------print flags-----'') w1;
                        o3 = o2\<lparr>PodName := pod_arg\<rparr>;
                        w3 = emit (StdoutDump ''------print flags-----'') w2;
                        loaded = LoadFile env (Complete_configFile env o3);
                        w4 = (case loaded of
                                Inl err \<Rightarrow> emit (LogPrintln (''error loading file  '' @ message err)) w3
                              | Inr c \<Rightarrow> w3);
                        config = (case loaded of Inl err \<Rightarrow> empty_Config | Inr c \<Rightarrow> c);
                        o7 = Complete_defaults config rest_args o3;
                        o8 = o7\<lparr>Config_opt := fst (loader_ClientConfig env)\<rparr>
                    in case snd (loader_ClientConfig env) of
                         Some err \<Rightarrow> (Some err, o8, w4)
                       | None \<Rightarrow>
                           (case NewForConfig env (Config_opt o8) of
                              Inl err \<Rightarrow>
                                (Some err, o8,
                                 emit (Stdout (''err; --- '' @ message err @ '' ---NewForConfig\<newline>'')) w4)
                            | Inr client \<Rightarrow> (None, o8\<lparr>PodClient := Some client\<rparr>, w4)))))"

definition Validate :: "DebugOptions \<Rightarrow> error option" where
  "Validate o0 =
     (if length (PodName o0) = 0 then Some (Errorf ''pod name must be specified'')
      else if length (Command o0) = 0
      then Some (Errorf ''you must specify at least one command for the container'')
      else None)"

subsection \<open>The command vector as a JSON array\<close>

text \<open>
  Modelled from the spec: the command is sent as a "JSON-encoded ordered array of
  strings", written by \<open>json.Marshal\<close> of Go's \<open>encoding/json\<close>, which is not among
  the source files. Go strings are byte sequences and \<open>json.Marshal\<close> reads them as
  UTF-8, so the model starts with \<open>DecodeRuneInString\<close> and \<open>EncodeRune\<close> of
  \<open>unicode/utf8\<close>: a byte below 0x80 is a rune of its own; a lead byte 0xC2-0xDF,
  0xE0-0xEF or 0xF0-0xF4 takes one, two or three continuation bytes 0x80-0xBF, the first
  of them narrowed after 0xE0, 0xED, 0xF0 and 0xF4 so that no rune is written too long,
  is a surrogate or exceeds U+10FFFF; anything else decodes as the replacement rune
  U+FFFD of width 1.
\<close>

definition byte :: "char \<Rightarrow> nat" where
  "byte c = of_char c"

definition RuneError :: nat where
  "RuneError = 65533"

definition accept_lo :: "char \<Rightarrow> nat" where
  "accept_lo s0 = (if byte s0 = 224 then 160 else if byte s0 = 240 then 144 else 128)"

definition accept_hi :: "char \<Rightarrow> nat" where
  "accept_hi s0 = (if byte s0 = 237 then 159 else if byte s0 = 244 then 143 else 191)"

definition continuation :: "char \<Rightarrow> bool" where
  "continuation c = (128 \<le> byte c \<and> byte c \<le> 191)"

definition DecodeRune :: "string \<Rightarrow> nat \<times> nat" where
  "DecodeRune s =
     (case s of
        [] \<Rightarrow> (RuneError, 0)
      | s0 # r0 \<Rightarrow>
          if byte s0 < 128 then (byte s0, 1)
          else if byte s0 < 194 \<or> 244 < byte s0 then (RuneError, 1)
          else (case r0 of
                  [] \<Rightarrow> (RuneError, 1)
                | s1 # r1 \<Rightarrow>
                    if byte s1 < accept_lo s0 \<or> accept_hi s0 < byte s1 then (RuneError, 1)
                    else if byte s0 < 224
                    then ((byte s0 mod 32) * 64 + byte s1 mod 64, 2)
                    else (case r1 of
                            [] \<Rightarrow> (RuneError, 1)
                          | s2 # r2 \<Rightarrow>
                              if \<not> continuation s2 then (RuneError, 1)
                              else if byte s0 < 240
                              then ((byte s0 mod 16) * 4096 + (byte s1 mod 64) * 64
                                      + byte s2 mod 64, 3)
                              else (case r2 of
                                      [] \<Rightarrow> (RuneError, 1)
                                    | s3 # r3 \<Rightarrow>
                                        if \<not> continuation s3 then (RuneError, 1)
                                        else ((byte s0 mod 8) * 262144 + (byte s1 mod 64) * 4096
                                                + (byte s2 mod 64) * 64 + byte s3 mod 64, 4)))))"



text \<open>
  Modelled from the spec: the string encoding of \<open>encoding/json\<close>, with the escaping
  that \<open>json.Marshal\<close> documents. Between quotation marks, a quotation mark and a
  backslash are escaped by a backslash; line feed, carriage return and tab are written
  \<open>\n\<close>, \<open>\r\<close> and \<open>\t\<close>; every other byte below 0x20 and the characters
  \<open><\<close>, \<open>>\<close> and \<open>&\<close> are written \<open>\u00XX\<close>; U+2028 and U+2029 are
  written \<open>\u2028\<close> and \<open>\u2029\<close>; every byte that is not part of well-formed
  UTF-8 is replaced by \<open>\ufffd\<close>; every other rune is copied as it is. (Releases
  from Go 1.22 on write the bytes 0x08 and 0x0C as \<open>\b\<close> and \<open>\f\<close>; the decoder
  below reads both spellings.) The elements are separated by commas between brackets.
  The list \<open>[]\<close> stands for the empty slice; a nil slice, which Go writes
  \<open>null\<close>, is not told apart from it, and \<open>Run\<close> reaches the encoder with a
  non-empty command after a successful \<open>Complete\<close>.
\<close>

definition hex_digit :: "nat \<Rightarrow> char" where
  "hex_digit n = ''0123456789abcdef'' ! n"

definition htmlSafe :: "char \<Rightarrow> bool" where
  "htmlSafe b =
     (32 \<le> byte b \<and> byte b < 128 \<and> b \<noteq> CHR 0x22 \<and> b \<noteq> CHR 0x5C
      \<and> b \<noteq> CHR ''<'' \<and> b \<noteq> CHR ''>'' \<and> b \<noteq> CHR ''&'')"

definition escape_byte :: "char \<Rightarrow> string" where
  "escape_byte b =
     (if b = CHR 0x5C \<or> b = CHR 0x22 then [CHR 0x5C, b]
      else if b = CHR 0x0A then [CHR 0x5C, CHR ''n'']
      else if b = CHR 0x0D then [CHR 0x5C, CHR ''r'']
      else if b = CHR 0x09 then [CHR 0x5C, CHR ''t'']
      else [CHR 0x5C, CHR ''u'', CHR ''0'', CHR ''0'',
            hex_digit (byte b div 16), hex_digit (byte b mod 16)])"

function appendString_from :: "string \<Rightarrow> string" where
  "appendString_from [] = []"
| "appendString_from (b # bs) =
     (if byte b < 128
      then (if htmlSafe b then [b] else escape_byte b) @ appendString_from bs
      else (let c = fst (DecodeRune (b # bs)); size = snd (DecodeRune (b # bs))
            in if c = RuneError \<and> size = 1
               then [CHR 0x5C, CHR ''u'', CHR ''f'', CHR ''f'', CHR ''f'', CHR ''d'']
                      @ appendString_from bs
               else if c = 8232 \<or> c = 8233
               then [CHR 0x5C, CHR ''u'', CHR ''2'', CHR ''0'', CHR ''2'', hex_digit (c mod 16)]
                      @ appendString_from (drop (size - 1) bs)
               else b # take (size - 1) bs @ appendString_from (drop (size - 1) bs)))"
  by pat_completeness auto
termination
  by (relation "measure length") auto

definition json_string :: "string \<Rightarrow> string" where
  "json_string s = [CHR 0x22] @ appendString_from s @ [CHR 0x22]"

fun json_elements :: "string list \<Rightarrow> string" where
  "json_elements [] = []"
| "json_elements [s] = json_string s"
| "json_elements (s # t # ss) = json_string s @ '','' @ json_elements (t # ss)"

definition json_array :: "string list \<Rightarrow> string" where
  "json_array v = ''['' @ json_elements v @ '']''"

text \<open>
  Modelled from the spec: \<open>json.Marshal(o.Command)\<close>, the array encoding above. The
  encoding of a \<open>[]string\<close> cannot fail; the error result is kept because \<open>Run\<close>
  branches on it.
\<close>

definition json_Marshal :: "string list \<Rightarrow> error + string" where
  "json_Marshal v = Inr (json_array v)"

subsection \<open>The terminal (setupTTY, lines 331-351) and the transport (remoteExecute, lines 309-329)\<close>

definition setupTTY :: "env \<Rightarrow> DebugOptions \<Rightarrow> world \<Rightarrow> TTY \<times> DebugOptions \<times> world" where
  "setupTTY env o0 w =
     (let t0 = \<lparr>tty_In = None, tty_Out = Out o0, tty_Raw = False\<rparr>;
          t1 = t0\<lparr>tty_In := In o0\<rparr>;
          t2 = t1\<lparr>tty_Raw := True\<rparr>
      in if \<not> IsTerminal env (tty_In t2)
         then (t2, o0,
               (case ErrOut o0 of
                  Some errOut \<Rightarrow>
                    emit (Fprint errOut
                      ''Unable to use a TTY - input is not a terminal or the right kind of file\<newline>'') w
                | None \<Rightarrow> w))
         else (let stdin = fst (StdStreams env);
                   stdout = fst (snd (StdStreams env));
                   o1 = o0\<lparr>In := Some stdin\<rparr>;
                   t3 = t2\<lparr>tty_In := Some stdin\<rparr>
               in if Out o1 \<noteq> None
                  then (t3\<lparr>tty_Out := Some stdout\<rparr>, o1\<lparr>Out := Some stdout\<rparr>, w)
                  else (t3, o1, w)))"

definition remoteExecute ::
  "env \<Rightarrow> string \<Rightarrow> URL \<Rightarrow> rest_config option \<Rightarrow> stream option \<Rightarrow> stream option \<Rightarrow> stream option
     \<Rightarrow> bool \<Rightarrow> size_queue option \<Rightarrow> world \<Rightarrow> error option outcome \<times> world" where
  "remoteExecute env method url config stdin stdout stderr tty terminalSizeQueue w =
     (let w1 = emit (NewSPDYExecutor config method url) w
      in case executor_error env config method url of
           Some err \<Rightarrow> (Return (Some err), w1)
         | None \<Rightarrow>
            (let exec = \<lparr>ex_config = config, ex_method = method, ex_url = url\<rparr>;
                 options = \<lparr>so_Stdin = stdin, so_Stdout = stdout, so_Stderr = stderr,
                            so_Tty = tty, so_TerminalSizeQueue = terminalSizeQueue\<rparr>
             in (stream_result env exec options, emit (Stream exec options) w1)))"

text \<open>
  Modelled from the spec: \<open>TTY.Safe\<close> is a function of pkg/util, which is not among the
  source files. The spec's Terminal Adapter switches the local terminal device into raw
  mode when the input is an interactive terminal, and reverts whatever mode change it
  applied before its scope exits, on every exit path, errors raised by the body
  included. When the input is no terminal, no mode change is applied and the body just
  runs.
\<close>

definition Safe ::
  "env \<Rightarrow> TTY \<Rightarrow> (world \<Rightarrow> error option outcome \<times> world) \<Rightarrow> world \<Rightarrow> error option outcome \<times> world" where
  "Safe env t fn w =
     (if \<not> IsTerminal env (tty_In t) then fn w
      else (let saved = tmode w;
                w1 = w\<lparr>tmode := (if tty_Raw t then make_raw saved else saved)\<rparr>;
                r = fn w1
            in (fst r, (snd r)\<lparr>tmode := saved\<rparr>)))"

subsection \<open>Run (lines 222-294)\<close>

text \<open>Lines 241-248: the container name, defaulted to the pod's first container.\<close>

definition Run_containerName :: "DebugOptions \<Rightarrow> Pod \<Rightarrow> world \<Rightarrow> string outcome \<times> world" where
  "Run_containerName o0 pod w =
     (let containerName = ContainerName o0
      in if length containerName = 0
         then (let advisory =
                     (if length (Containers (Spec pod)) > 1
                      then (let usageString =
                                  ''Defaulting container name to ''
                                    @ ctr_Name (Containers (Spec pod) ! 0) @ ''.''
                            in case ErrOut o0 of
                                 None \<Rightarrow> Panic nil_dereference
                               | Some errOut \<Rightarrow>
                                   Return (emit (Fprint errOut (usageString @ [CHR 0x0A, CHR 0x0D])) w))
                      else Return w)
               in case advisory of
                    Panic p \<Rightarrow> (Panic p, w)
                  | Return w1 \<Rightarrow>
                     (case Containers (Spec pod) of
                        [] \<Rightarrow> (Panic index_out_of_range, w1)
                      | c # _ \<Rightarrow> (Return (ctr_Name c), w1)))
         else (Return containerName, w))"

text \<open>Lines 267-286: the body \<open>fn\<close> handed to \<open>Safe\<close>.\<close>

definition Run_fn ::
  "env \<Rightarrow> DebugOptions \<Rightarrow> string \<Rightarrow> string \<Rightarrow> TTY \<Rightarrow> size_queue option \<Rightarrow> world
     \<Rightarrow> error option outcome \<times> world" where
  "Run_fn env o0 hostIP containerId t sizeQueue w =
     (case url_Parse env (''http://'' @ hostIP @ '':'' @ sprint_d (AgentPort o0)) of
        Inl err \<Rightarrow> (Return (Some err), w)
      | Inr uri \<Rightarrow>
         (let uri1 = uri\<lparr>Path := ''/api/v1/debug''\<rparr>;
              params0 = (Map.empty :: Values);
              params1 = Add params0 ''image'' (Image_opt o0);
              params2 = Add params1 ''container'' containerId
          in case json_Marshal (Command o0) of
               Inl err \<Rightarrow> (Return (Some err), w)
             | Inr bytes \<Rightarrow>
                (let params3 = Add params2 ''command'' bytes;
                     uri2 = uri1\<lparr>RawQuery := Values_Encode env params3\<rparr>
                 in remoteExecute env ''POST'' uri2 (Config_opt o0) (In o0) (Out o0) (ErrOut o0)
                      (tty_Raw t) sizeQueue w)))"

text \<open>Lines 257-293: the terminal set up, the body run under \<open>Safe\<close>, its error reported.\<close>

definition Run_session ::
  "env \<Rightarrow> DebugOptions \<Rightarrow> string \<Rightarrow> string \<Rightarrow> world \<Rightarrow> error option outcome \<times> DebugOptions \<times> world" where
  "Run_session env o0 hostIP containerId w =
     (let tty_setup = setupTTY env o0 w;
          t = fst tty_setup;
          o1 = fst (snd tty_setup);
          w1 = snd (snd tty_setup);
          sizeQueue = (if tty_Raw t then size_queue_of env t else None);
          w2 = (if tty_Raw t then emit (MonitorSize t) w1 else w1);
          o2 = (if tty_Raw t then o1\<lparr>ErrOut := None\<rparr> else o1);
          r = Safe env t (Run_fn env o2 hostIP containerId t sizeQueue) w2
      in case fst r of
           Panic p \<Rightarrow> (Panic p, o2, snd r)
         | Return None \<Rightarrow> (Return None, o2, snd r)
         | Return (Some err) \<Rightarrow>
             (Return (Some err), o2,
              emit (Stdout (''error execute remote, '' @ message err @ ''\<newline>'')) (snd r)))"

definition Run :: "env \<Rightarrow> DebugOptions \<Rightarrow> world \<Rightarrow> error option outcome \<times> DebugOptions \<times> world" where
  "Run env o0 w =
     (let w1 = emit (Stdout ''run; function\<newline>'') w
      in case PodClient o0 of
           None \<Rightarrow> (Panic nil_dereference, o0, w1)
         | Some client \<Rightarrow>
            (let w2 = emit (GetPod (Namespace o0) (PodName o0)) w1
             in case client (Namespace o0) (PodName o0) of
                  Inl err \<Rightarrow>
                    (Return (Some err), o0, emit (Stdout ''run; function; <o.PodClient.Pods>\<newline>'') w2)
                | Inr pod \<Rightarrow>
                    if Phase (Status pod) = PodSucceeded \<or> Phase (Status pod) = PodFailed
                    then (Return (Some (Errorf (''cannot debug in a completed pod; current phase is ''
                                                  @ Phase (Status pod)))), o0, w2)
                    else (let w3 = emit (StdoutDump ''pod:'') w2;
                              hostIP = HostIP (Status pod);
                              w4 = emit (Stdout (''hostIP:['' @ hostIP @ '']\<newline>\<newline>'')) w3;
                              named = Run_containerName o0 pod w4
                          in case fst named of
                               Panic p \<Rightarrow> (Panic p, o0, snd named)
                             | Return containerName \<Rightarrow>
                                (case getContainerIdByName pod containerName of
                                   Inl err \<Rightarrow> (Return (Some err), o0, snd named)
                                 | Inr containerId \<Rightarrow>
                                     Run_session env o0 hostIP containerId
                                       (emit (Stdout (''containerId:['' @ containerId
                                                        @ '']\<newline>\<newline>'')) (snd named))))))"

subsection \<open>The command handler (NewDebugCmd, lines 110-122)\<close>

definition report :: "error option \<Rightarrow> world \<Rightarrow> world" where
  "report err w = (case err of None \<Rightarrow> w | Some e \<Rightarrow> emit (Stdout (message e @ ''\<newline>'')) w)"

definition handler :: "env \<Rightarrow> string list \<Rightarrow> DebugOptions \<Rightarrow> world \<Rightarrow> unit outcome \<times> DebugOptions \<times> world" where
  "handler env args o0 w =
     (let w1 = emit (Stdout ''hello i'm here, in cmd/ newDebugCmd\<newline>'') w;
          completed = Complete env args o0 w1;
          o1 = fst (snd completed);
          w2 = report (fst completed) (snd (snd completed));
          w3 = report (Validate o1) w2;
          ran = Run env o1 w3
      in case fst ran of
           Panic p \<Rightarrow> (Panic p, fst (snd ran), snd (snd ran))
         | Return err \<Rightarrow> (Return (), fst (snd ran), report err (snd (snd ran))))"

subsection \<open>Decoding the command vector\<close>









subsection \<open>The options that NewDebugCmd starts from (lines 78-102)\<close>

text \<open>
  \<open>NewDebugOptions\<close> allocates a zero-valued \<open>DebugOptions\<close> and applies the option
  functions, which set \<open>Flags\<close> and the three streams.
\<close>

definition NewDebugOptions :: "stream option \<Rightarrow> stream option \<Rightarrow> stream option \<Rightarrow> DebugOptions" where
  "NewDebugOptions stdin stdout stderr =
     \<lparr>Namespace = [], PodName = [], RetainContainer = False, Image_opt = [],
      ContainerName = [], Command = [], AgentPort = 0, ConfigLocation = [],
      PodClient = None, Args = [], Config_opt = None,
      In = stdin, Out = stdout, ErrOut = stderr\<rparr>"

subsection \<open>Reading a trace\<close>

text \<open>The events that hand a request to the transport, and those that involve the agent at all.\<close>

fun request_event :: "event \<Rightarrow> bool" where
  "request_event (NewSPDYExecutor config method url) = True"
| "request_event _ = False"

fun agent_event :: "event \<Rightarrow> bool" where
  "agent_event (NewSPDYExecutor config method url) = True"
| "agent_event (Stream exec options) = True"
| "agent_event _ = False"

text \<open>The advisory notice of \<open>Run\<close> (line 244), whatever container it names.\<close>

fun is_advisory :: "event \<Rightarrow> bool" where
  "is_advisory (Fprint out text) = prefix ''Defaulting container name to '' text"
| "is_advisory _ = False"

subsection \<open>A concrete cluster, for the examples\<close>

definition sample_pod :: Pod where
  "sample_pod =
     \<lparr>Spec = \<lparr>Containers = [\<lparr>ctr_Name = ''web''\<rparr>, \<lparr>ctr_Name = ''sidecar''\<rparr>]\<rparr>,
      Status = \<lparr>Phase = ''Running'', HostIP = ''10.0.0.5'',
                ContainerStatuses =
                  [\<lparr>cs_Name = ''web'', cs_Ready = True, cs_ContainerID = ''docker://abc''\<rparr>,
                   \<lparr>cs_Name = ''sidecar'', cs_Ready = False, cs_ContainerID = ''docker://def''\<rparr>]\<rparr>\<rparr>"

definition sample_client :: "Pod \<Rightarrow> PodsGetter" where
  "sample_client pod namespace name =
     (if name = ''mypod'' then Inr pod else Inl (Errorf ''pods not found''))"

definition sample_env :: env where
  "sample_env =
     \<lparr>loader_Namespace = (''default'', None),
      loader_ClientConfig = (Some 1, None),
      NewForConfig = (\<lambda>config. Inr (sample_client sample_pod)),
      user_Current = Inr ''/home/op'',
      LoadFile = (\<lambda>path. Inl (Errorf ''no such file'')),
      IsTerminal = (\<lambda>s. s = Some 0),
      StdStreams = (0, 1, 2),
      size_queue_of = (\<lambda>t. Some 7),
      url_Parse = (\<lambda>s. Inr \<lparr>Scheme = ''http'', Host = drop 7 s, Path = [], RawQuery = []\<rparr>),
      Values_Encode = (\<lambda>v. concat (map (\<lambda>key. case v key of
                                                   None \<Rightarrow> []
                                                 | Some vals \<Rightarrow> key @ ''='' @ concat vals @ ''&'')
                                        [''command'', ''container'', ''image''])),
      executor_error = (\<lambda>config method url. None),
      stream_result = (\<lambda>exec options. Return None)\<rparr>"

definition sample_options :: "Pod \<Rightarrow> DebugOptions" where
  "sample_options pod =
     (NewDebugOptions (Some 0) (Some 1) (Some 2))
       \<lparr>Namespace := ''default'', PodName := ''mypod'', Image_opt := defaultImage,
        Command := [''bash''], AgentPort := defaultAgentPort,
        PodClient := Some (sample_client pod), Config_opt := Some 1\<rparr>"

definition sample_world :: world where
  "sample_world = \<lparr>tmode = \<lparr>echo = True, line_buffering = True, other_settings = 0\<rparr>, trace = []\<rparr>"

definition completed_pod :: Pod where
  "completed_pod = sample_pod\<lparr>Status := (Status sample_pod)\<lparr>Phase := ''Succeeded''\<rparr>\<rparr>"

definition empty_pod :: Pod where
  "empty_pod = sample_pod\<lparr>Spec := \<lparr>Containers = []\<rparr>\<rparr>"

text \<open>A session body that leaves the terminal in another mode and panics.\<close>

definition scrambling_body :: "world \<Rightarrow> error option outcome \<times> world" where
  "scrambling_body w =
     (Panic ''boom'', w\<lparr>tmode := \<lparr>echo = False, line_buffering = True, other_settings = 9\<rparr>\<rparr>)"

section \<open>Properties\<close>

subsection \<open>The command vector survives encoding and decoding\<close>



























subsection \<open>Resolving the container\<close>

lemma find_status_absent:
  "\<forall>s \<in> set statuses. cs_Name s \<noteq> n \<Longrightarrow>
   find_status statuses n = Inl (Errorf (''cannot find specified container '' @ n))"
  by (induction statuses) simp_all

lemma find_status_not_ready:
  "distinct (map cs_Name statuses) \<Longrightarrow> s \<in> set statuses \<Longrightarrow> cs_Name s = n \<Longrightarrow> \<not> cs_Ready s \<Longrightarrow>
   find_status statuses n = Inl (Errorf (''container '' @ n @ '' id not ready''))"
proof (induction statuses)
  case Nil
  then show ?case by simp
next
  case (Cons x xs)
  show ?case
  proof (cases "cs_Name x = n")
    case True
    with Cons.prems have "x = s" by (auto simp: image_iff)
    with Cons.prems True show ?thesis by simp
  next
    case False
    with Cons show ?thesis by auto
  qed
qed

lemma find_status_first_not_ready:
  "find (\<lambda>x. cs_Name x = n) statuses = Some s \<Longrightarrow> \<not> cs_Ready s \<Longrightarrow>
   find_status statuses n = Inl (Errorf (''container '' @ n @ '' id not ready''))"
  by (induction statuses) (auto split: if_splits)

lemma find_status_found:
  "find_status statuses n = Inr cid \<Longrightarrow>
   \<exists>s \<in> set statuses. cs_Name s = n \<and> cs_Ready s \<and> cs_ContainerID s = cid"
  by (induction statuses) (auto split: if_splits)

lemma Run_containerName_fst:
  "fst (Run_containerName o0 pod w) = fst (Run_containerName o0 pod w')"
  by (auto simp: Run_containerName_def Let_def split: option.splits list.splits)

lemma Run_containerName_trace:
  "\<exists>evs. trace (snd (Run_containerName o0 pod w)) = trace w @ evs \<and> filter agent_event evs = []"
  by (auto simp: Run_containerName_def Let_def emit_def split: option.splits list.splits)

subsection \<open>The terminal mode\<close>

lemma Run_containerName_tmode:
  "tmode (snd (Run_containerName o0 pod w)) = tmode w"
  by (auto simp: Run_containerName_def Let_def emit_def split: option.splits list.splits)

lemma Run_fn_tmode: "tmode (snd (Run_fn env o0 hostIP cid t q w)) = tmode w"
  by (auto simp: Run_fn_def remoteExecute_def json_Marshal_def emit_def Let_def
      split: option.splits sum.splits)

lemma Safe_tmode:
  assumes "\<And>w. tmode (snd (fn w)) = tmode w"
  shows "tmode (snd (Safe env t fn w)) = tmode w"
  using assms by (simp add: Safe_def Let_def)

lemma setupTTY_tmode: "tmode (snd (snd (setupTTY env o0 w))) = tmode w"
  by (auto simp: setupTTY_def Let_def emit_def split: option.splits)

lemma Run_session_tmode: "tmode (snd (snd (Run_session env o0 hostIP cid w))) = tmode w"
proof -
  have "tmode (snd (Safe env t (Run_fn env o2 hostIP cid t q) w2)) = tmode w2" for t o2 q w2
    by (rule Safe_tmode) (rule Run_fn_tmode)
  then show ?thesis
    by (auto simp: Run_session_def Let_def emit_def setupTTY_tmode split: outcome.splits option.splits)
qed

lemma Run_tmode: "tmode (snd (snd (Run env o0 w))) = tmode w"
  by (auto simp: Run_def Let_def emit_def Run_session_tmode Run_containerName_tmode
      split: option.splits sum.splits outcome.splits)

text \<open>
  Claim C1. Whatever the session's outcome (the environment decides whether the URL
  parses, the executor is created, the stream ends with or without an error, or the body
  panics), the mode of the local terminal after \<open>Run\<close> is the mode before it. The
  wrapper reverts the mode on every path out of the body, even for a body that itself
  leaves the terminal in another mode.
\<close>

theorem terminal_mode_restored:
  "tmode (snd (snd (Run env o0 w))) = tmode w
   \<and> (IsTerminal env (tty_In t) \<longrightarrow> tmode (snd (Safe env t fn w)) = tmode w)"
  by (simp add: Run_tmode Safe_def Let_def)

theorem terminal_mode_restored_witness:
  "IsTerminal sample_env (tty_In \<lparr>tty_In = Some 0, tty_Out = Some 1, tty_Raw = True\<rparr>)
   \<and> tmode (snd (Safe sample_env \<lparr>tty_In = Some 0, tty_Out = Some 1, tty_Raw = True\<rparr>
                     scrambling_body sample_world))
       = \<lparr>echo = True, line_buffering = True, other_settings = 0\<rparr>
   \<and> tmode (snd (scrambling_body sample_world))
       \<noteq> \<lparr>echo = True, line_buffering = True, other_settings = 0\<rparr>
   \<and> tmode (snd (snd (Run sample_env (sample_options sample_pod) sample_world)))
       = \<lparr>echo = True, line_buffering = True, other_settings = 0\<rparr>"
  using terminal_mode_restored [of sample_env "sample_options sample_pod" sample_world
      "\<lparr>tty_In = Some 0, tty_Out = Some 1, tty_Raw = True\<rparr>" scrambling_body]
  by (simp add: sample_env_def sample_world_def scrambling_body_def)

subsection \<open>The trace of a session\<close>

lemma Run_fn_trace:
  "trace (snd (Run_fn env o0 hostIP cid t q w)) = trace w @
     (case url_Parse env (''http://'' @ hostIP @ '':'' @ sprint_d (AgentPort o0)) of
        Inl err \<Rightarrow> []
      | Inr u \<Rightarrow>
         (let url = u\<lparr>Path := ''/api/v1/debug'',
                       RawQuery := Values_Encode env
                         [''image'' \<mapsto> [Image_opt o0], ''container'' \<mapsto> [cid],
                          ''command'' \<mapsto> [json_array (Command o0)]]\<rparr>
          in NewSPDYExecutor (Config_opt o0) ''POST'' url #
             (case executor_error env (Config_opt o0) ''POST'' url of
                Some err \<Rightarrow> []
              | None \<Rightarrow>
                  [Stream \<lparr>ex_config = Config_opt o0, ex_method = ''POST'', ex_url = url\<rparr>
                     \<lparr>so_Stdin = In o0, so_Stdout = Out o0, so_Stderr = ErrOut o0,
                      so_Tty = tty_Raw t, so_TerminalSizeQueue = q\<rparr>])))"
  by (simp add: Run_fn_def remoteExecute_def json_Marshal_def Add_def emit_def Let_def
      split: option.splits sum.splits)

lemma Safe_trace:
  assumes "\<And>w. trace (snd (fn w)) = trace w @ evs"
  shows "trace (snd (Safe env t fn w)) = trace w @ evs"
  using assms by (simp add: Safe_def Let_def)

lemma setupTTY_trace:
  "trace (snd (snd (setupTTY env o0 w))) = trace w @
     (if IsTerminal env (In o0) then []
      else (case ErrOut o0 of
              None \<Rightarrow> []
            | Some errOut \<Rightarrow>
                [Fprint errOut
                   ''Unable to use a TTY - input is not a terminal or the right kind of file\<newline>'']))"
  by (simp add: setupTTY_def Let_def emit_def split: option.splits)

lemma setupTTY_Raw: "tty_Raw (fst (setupTTY env o0 w))"
  by (simp add: setupTTY_def Let_def)

lemma setupTTY_options:
  "Config_opt (fst (snd (setupTTY env o0 w))) = Config_opt o0
   \<and> Image_opt (fst (snd (setupTTY env o0 w))) = Image_opt o0
   \<and> Command (fst (snd (setupTTY env o0 w))) = Command o0
   \<and> AgentPort (fst (snd (setupTTY env o0 w))) = AgentPort o0"
  by (simp add: setupTTY_def Let_def)

lemma Run_session_requests:
  "\<exists>evs. trace (snd (snd (Run_session env o0 hostIP cid w))) = trace w @ evs
     \<and> MonitorSize (fst (setupTTY env o0 w)) \<in> set evs
     \<and> filter is_advisory evs = []
     \<and> filter request_event evs =
         (case url_Parse env (''http://'' @ hostIP @ '':'' @ sprint_d (AgentPort o0)) of
            Inl err \<Rightarrow> []
          | Inr u \<Rightarrow>
              [NewSPDYExecutor (Config_opt o0) ''POST''
                 (u\<lparr>Path := ''/api/v1/debug'',
                    RawQuery := Values_Encode env
                      [''image'' \<mapsto> [Image_opt o0], ''container'' \<mapsto> [cid],
                       ''command'' \<mapsto> [json_array (Command o0)]]\<rparr>)])"
proof -
  define t where "t = fst (setupTTY env o0 w)"
  define o1 where "o1 = fst (snd (setupTTY env o0 w))"
  define w1 where "w1 = snd (snd (setupTTY env o0 w))"
  define o2 where "o2 = o1\<lparr>ErrOut := None\<rparr>"
  define w2 where "w2 = emit (MonitorSize t) w1"
  define r where "r = Safe env t (Run_fn env o2 hostIP cid t (size_queue_of env t)) w2"
  define pre where "pre = (if IsTerminal env (In o0) then []
      else (case ErrOut o0 of
              None \<Rightarrow> []
            | Some errOut \<Rightarrow>
                [Fprint errOut
                   ''Unable to use a TTY - input is not a terminal or the right kind of file\<newline>'']))"
  have raw: "tty_Raw t" by (simp add: t_def setupTTY_Raw)
  have same: "Config_opt o2 = Config_opt o0" "Image_opt o2 = Image_opt o0"
    "Command o2 = Command o0" "AgentPort o2 = AgentPort o0"
    using setupTTY_options [of env o0 w] by (simp_all add: o2_def o1_def)
  have tw1: "trace w1 = trace w @ pre"
    unfolding w1_def pre_def by (rule setupTTY_trace)
  have tw2: "trace w2 = trace w @ pre @ [MonitorSize t]"
    by (simp add: w2_def emit_def tw1)
  obtain body where body: "\<And>w'. trace (snd (Run_fn env o2 hostIP cid t (size_queue_of env t) w')) = trace w' @ body"
    and body_adv: "filter is_advisory body = []"
    and body_req: "filter request_event body =
         (case url_Parse env (''http://'' @ hostIP @ '':'' @ sprint_d (AgentPort o0)) of
            Inl err \<Rightarrow> []
          | Inr u \<Rightarrow>
              [NewSPDYExecutor (Config_opt o0) ''POST''
                 (u\<lparr>Path := ''/api/v1/debug'',
                    RawQuery := Values_Encode env
                      [''image'' \<mapsto> [Image_opt o0], ''container'' \<mapsto> [cid],
                       ''command'' \<mapsto> [json_array (Command o0)]]\<rparr>)])"
    using Run_fn_trace [of env o2 hostIP cid t "size_queue_of env t"]
    by (simp add: same Let_def split: sum.splits option.splits)
  have tr: "trace (snd r) = trace w @ pre @ [MonitorSize t] @ body"
    unfolding r_def using Safe_trace [of "Run_fn env o2 hostIP cid t (size_queue_of env t)" body env t w2] body
    by (simp add: tw2)
  have unfold: "Run_session env o0 hostIP cid w =
     (case fst r of
           Panic p \<Rightarrow> (Panic p, o2, snd r)
         | Return None \<Rightarrow> (Return None, o2, snd r)
         | Return (Some err) \<Rightarrow>
             (Return (Some err), o2,
              emit (Stdout (''error execute remote, '' @ message err @ ''\<newline>'')) (snd r)))"
    unfolding Run_session_def Let_def r_def w2_def o2_def w1_def o1_def
    using raw unfolding t_def by simp
  have "\<exists>post. trace (snd (snd (Run_session env o0 hostIP cid w))) = trace (snd r) @ post
      \<and> filter is_advisory post = [] \<and> filter request_event post = []"
  proof (cases "fst r")
    case (Panic p)
    then show ?thesis by (simp add: unfold)
  next
    case (Return e)
    then show ?thesis by (cases e) (simp_all add: unfold emit_def)
  qed
  then obtain post where post: "trace (snd (snd (Run_session env o0 hostIP cid w))) = trace (snd r) @ post"
    and post_adv: "filter is_advisory post = []" and post_req: "filter request_event post = []"
    by blast
  have pre_f: "filter is_advisory pre = []" "filter request_event pre = []"
    by (simp_all add: pre_def split: option.splits)
  show ?thesis
    by (rule exI [of _ "pre @ [MonitorSize t] @ body @ post"])
       (simp add: post tr pre_f body_adv body_req post_adv post_req t_def [symmetric])
qed

text \<open>
  Every session is a raw one: \<open>setupTTY\<close> returns with \<open>Raw\<close> set whether or not
  the input is a terminal, so \<open>Run\<close> always has the terminal size monitored and
  always clears the error stream.
\<close>

lemma Run_session_ErrOut: "ErrOut (fst (snd (Run_session env o0 hostIP cid w))) = None"
  by (simp add: Run_session_def Let_def setupTTY_Raw split: outcome.splits option.splits)

lemma session_always_raw:
  "tty_Raw (fst (setupTTY env o0 w))
   \<and> ErrOut (fst (snd (Run_session env o0 hostIP cid w))) = None
   \<and> MonitorSize (fst (setupTTY env o0 w))
        \<in> set (trace (snd (snd (Run_session env o0 hostIP cid w))))"
proof -
  obtain evs where "trace (snd (snd (Run_session env o0 hostIP cid w))) = trace w @ evs"
    and "MonitorSize (fst (setupTTY env o0 w)) \<in> set evs"
    using Run_session_requests [of env o0 hostIP cid w] by blast
  then show ?thesis
    by (simp add: setupTTY_Raw Run_session_ErrOut)
qed

lemma Run_debuggable:
  assumes "PodClient o0 = Some client"
    and "client (Namespace o0) (PodName o0) = Inr pod"
    and "Phase (Status pod) \<noteq> PodSucceeded" and "Phase (Status pod) \<noteq> PodFailed"
  shows "Run env o0 w =
     (let named = Run_containerName o0 pod
                    (emit (Stdout (''hostIP:['' @ HostIP (Status pod) @ '']\<newline>\<newline>''))
                       (emit (StdoutDump ''pod:'')
                          (emit (GetPod (Namespace o0) (PodName o0))
                             (emit (Stdout ''run; function\<newline>'') w))))
      in case fst named of
           Panic p \<Rightarrow> (Panic p, o0, snd named)
         | Return containerName \<Rightarrow>
            (case getContainerIdByName pod containerName of
               Inl err \<Rightarrow> (Return (Some err), o0, snd named)
             | Inr containerId \<Rightarrow>
                 Run_session env o0 (HostIP (Status pod)) containerId
                   (emit (Stdout (''containerId:['' @ containerId @ '']\<newline>\<newline>''))
                      (snd named))))"
  using assms by (simp add: Run_def Let_def)

lemma Run_prefix_trace:
  "trace (emit (Stdout (''hostIP:['' @ hostIP @ '']\<newline>\<newline>''))
                       (emit (StdoutDump ''pod:'')
                          (emit (GetPod ns name)
                             (emit (Stdout ''run; function\<newline>'') w))))
   = trace w @ [Stdout ''run; function\<newline>'', GetPod ns name, StdoutDump ''pod:'',
                Stdout (''hostIP:['' @ hostIP @ '']\<newline>\<newline>'')]"
  by (simp add: emit_def)

lemma Run_containerName_default:
  assumes "ContainerName o0 = []" and "Containers (Spec pod) = c # cs"
    and "cs \<noteq> [] \<longrightarrow> ErrOut o0 = Some errOut"
  shows "Run_containerName o0 pod w =
           (Return (ctr_Name c),
            if cs = [] then w
            else emit (Fprint errOut (''Defaulting container name to '' @ ctr_Name c @ ''.''
                                        @ [CHR 0x0A, CHR 0x0D])) w)"
  using assms by (cases cs) (simp_all add: Run_containerName_def Let_def)

subsection \<open>Pods that cannot be debugged\<close>

text \<open>
  Claim C3. For a pod whose phase is Succeeded or Failed, \<open>Run\<close> returns the
  error "cannot debug in a completed pod" and has done nothing but print its first
  diagnostic line and look the pod up: no container is resolved, no request is built,
  the agent is not contacted, and the options are unchanged.
\<close>

theorem Run_completed_pod:
  assumes "PodClient o0 = Some client"
    and "client (Namespace o0) (PodName o0) = Inr pod"
    and "Phase (Status pod) = PodSucceeded \<or> Phase (Status pod) = PodFailed"
  shows "Run env o0 w =
           (Return (Some (Errorf (''cannot debug in a completed pod; current phase is ''
                                    @ Phase (Status pod)))),
            o0,
            w\<lparr>trace := trace w @
                 [Stdout ''run; function\<newline>'', GetPod (Namespace o0) (PodName o0)]\<rparr>)"
  using assms by (auto simp: Run_def emit_def)

theorem Run_completed_pod_witness:
  "PodClient (sample_options completed_pod) = Some (sample_client completed_pod)
   \<and> sample_client completed_pod (Namespace (sample_options completed_pod))
        (PodName (sample_options completed_pod)) = Inr completed_pod
   \<and> (Phase (Status completed_pod) = PodSucceeded \<or> Phase (Status completed_pod) = PodFailed)
   \<and> Run sample_env (sample_options completed_pod) sample_world =
        (Return (Some (Errorf ''cannot debug in a completed pod; current phase is Succeeded'')),
         sample_options completed_pod,
         sample_world\<lparr>trace := [Stdout ''run; function\<newline>'', GetPod ''default'' ''mypod'']\<rparr>)"
proof -
  have h1: "PodClient (sample_options completed_pod) = Some (sample_client completed_pod)"
    by (simp add: sample_options_def)
  have h2: "sample_client completed_pod (Namespace (sample_options completed_pod))
        (PodName (sample_options completed_pod)) = Inr completed_pod"
    by (simp add: sample_options_def sample_client_def)
  have h3: "Phase (Status completed_pod) = PodSucceeded \<or> Phase (Status completed_pod) = PodFailed"
    by (simp add: completed_pod_def sample_pod_def PodSucceeded_def)
  show ?thesis
    using Run_completed_pod [OF h1 h2 h3, of sample_env sample_world] h1 h2 h3
    by (simp add: completed_pod_def sample_pod_def sample_world_def sample_options_def)
qed

text \<open>
  Claim C4. Where container names are unique within the pod status, as the data model
  has it, a status that matches the name with its ready flag false makes the resolution
  fail with "container ... id not ready"; without that invariant the same holds of the
  first status that matches the name, which is the one the loop decides on. No matching
  status at all makes the resolution fail with "cannot find specified container ...".
  When the resolution of the selected name fails, \<open>Run\<close> returns that error, leaves
  the options as they are and adds no event that involves the agent.
\<close>

theorem resolution_failure:
  "(distinct (map cs_Name (ContainerStatuses (Status pod)))
      \<and> s \<in> set (ContainerStatuses (Status pod)) \<and> cs_Name s = n \<and> \<not> cs_Ready s
     \<longrightarrow> getContainerIdByName pod n = Inl (Errorf (''container '' @ n @ '' id not ready'')))
   \<and> (find (\<lambda>x. cs_Name x = n) (ContainerStatuses (Status pod)) = Some s \<and> \<not> cs_Ready s
     \<longrightarrow> getContainerIdByName pod n = Inl (Errorf (''container '' @ n @ '' id not ready'')))
   \<and> ((\<forall>s' \<in> set (ContainerStatuses (Status pod)). cs_Name s' \<noteq> m)
     \<longrightarrow> getContainerIdByName pod m = Inl (Errorf (''cannot find specified container '' @ m)))
   \<and> (PodClient o0 = Some client \<and> client (Namespace o0) (PodName o0) = Inr pod
      \<and> Phase (Status pod) \<noteq> PodSucceeded \<and> Phase (Status pod) \<noteq> PodFailed
      \<and> fst (Run_containerName o0 pod w) = Return k
      \<and> getContainerIdByName pod k = Inl err
     \<longrightarrow> fst (Run env o0 w) = Return (Some err) \<and> fst (snd (Run env o0 w)) = o0
        \<and> (\<exists>evs. trace (snd (snd (Run env o0 w))) = trace w @ evs \<and> filter agent_event evs = []))"
proof (intro conjI impI)
  assume "distinct (map cs_Name (ContainerStatuses (Status pod)))
      \<and> s \<in> set (ContainerStatuses (Status pod)) \<and> cs_Name s = n \<and> \<not> cs_Ready s"
  then show "getContainerIdByName pod n = Inl (Errorf (''container '' @ n @ '' id not ready''))"
    unfolding getContainerIdByName_def by (intro find_status_not_ready [of _ s]) simp_all
next
  assume "find (\<lambda>x. cs_Name x = n) (ContainerStatuses (Status pod)) = Some s \<and> \<not> cs_Ready s"
  then show "getContainerIdByName pod n = Inl (Errorf (''container '' @ n @ '' id not ready''))"
    unfolding getContainerIdByName_def by (intro find_status_first_not_ready [of _ _ s]) simp_all
next
  assume "\<forall>s' \<in> set (ContainerStatuses (Status pod)). cs_Name s' \<noteq> m"
  then show "getContainerIdByName pod m = Inl (Errorf (''cannot find specified container '' @ m))"
    unfolding getContainerIdByName_def by (rule find_status_absent)
next
  assume a: "PodClient o0 = Some client \<and> client (Namespace o0) (PodName o0) = Inr pod
      \<and> Phase (Status pod) \<noteq> PodSucceeded \<and> Phase (Status pod) \<noteq> PodFailed
      \<and> fst (Run_containerName o0 pod w) = Return k
      \<and> getContainerIdByName pod k = Inl err"
  define w4 where "w4 = emit (Stdout (''hostIP:['' @ HostIP (Status pod) @ '']\<newline>\<newline>''))
                       (emit (StdoutDump ''pod:'')
                          (emit (GetPod (Namespace o0) (PodName o0))
                             (emit (Stdout ''run; function\<newline>'') w)))"
  have w4: "trace w4 = trace w @
                        [Stdout ''run; function\<newline>'', GetPod (Namespace o0) (PodName o0),
                         StdoutDump ''pod:'',
                         Stdout (''hostIP:['' @ HostIP (Status pod) @ '']\<newline>\<newline>'')]"
    by (simp add: w4_def emit_def)
  have k: "fst (Run_containerName o0 pod w4) = Return k"
    using a Run_containerName_fst [of o0 pod w4 w] by simp
  have run: "Run env o0 w = (Return (Some err), o0, snd (Run_containerName o0 pod w4))"
    using a k by (simp add: Run_debuggable [of o0 client pod env w] Let_def w4_def)
  obtain evs where evs: "trace (snd (Run_containerName o0 pod w4)) = trace w4 @ evs"
    "filter agent_event evs = []"
    using Run_containerName_trace [of o0 pod w4] by blast
  show "fst (Run env o0 w) = Return (Some err)" by (simp add: run)
  show "fst (snd (Run env o0 w)) = o0" by (simp add: run)
  show "\<exists>evs. trace (snd (snd (Run env o0 w))) = trace w @ evs \<and> filter agent_event evs = []"
    by (rule exI [of _ "[Stdout ''run; function\<newline>'', GetPod (Namespace o0) (PodName o0),
                         StdoutDump ''pod:'',
                         Stdout (''hostIP:['' @ HostIP (Status pod) @ '']\<newline>\<newline>'')] @ evs"])
       (simp add: run evs w4)
qed

theorem resolution_failure_witness:
  "distinct (map cs_Name (ContainerStatuses (Status sample_pod)))
   \<and> \<lparr>cs_Name = ''sidecar'', cs_Ready = False, cs_ContainerID = ''docker://def''\<rparr>
        \<in> set (ContainerStatuses (Status sample_pod))
   \<and> find (\<lambda>x. cs_Name x = ''sidecar'') (ContainerStatuses (Status sample_pod))
        = Some \<lparr>cs_Name = ''sidecar'', cs_Ready = False, cs_ContainerID = ''docker://def''\<rparr>
   \<and> getContainerIdByName sample_pod ''sidecar'' = Inl (Errorf ''container sidecar id not ready'')
   \<and> ''db'' \<notin> set (map cs_Name (ContainerStatuses (Status sample_pod)))
   \<and> getContainerIdByName sample_pod ''db'' = Inl (Errorf ''cannot find specified container db'')
   \<and> fst (Run_containerName ((sample_options sample_pod)\<lparr>ContainerName := ''sidecar''\<rparr>)
             sample_pod sample_world) = Return ''sidecar''
   \<and> fst (Run sample_env ((sample_options sample_pod)\<lparr>ContainerName := ''sidecar''\<rparr>) sample_world)
        = Return (Some (Errorf ''container sidecar id not ready''))
   \<and> (\<exists>evs. trace (snd (snd (Run sample_env
                 ((sample_options sample_pod)\<lparr>ContainerName := ''sidecar''\<rparr>) sample_world)))
               = trace sample_world @ evs \<and> filter agent_event evs = [])"
proof -
  let ?s = "\<lparr>cs_Name = ''sidecar'', cs_Ready = False, cs_ContainerID = ''docker://def''\<rparr>"
  let ?o = "(sample_options sample_pod)\<lparr>ContainerName := ''sidecar''\<rparr>"
  have h1: "distinct (map cs_Name (ContainerStatuses (Status sample_pod)))
      \<and> ?s \<in> set (ContainerStatuses (Status sample_pod)) \<and> cs_Name ?s = ''sidecar'' \<and> \<not> cs_Ready ?s"
    by (simp add: sample_pod_def)
  have h2: "\<forall>s' \<in> set (ContainerStatuses (Status sample_pod)). cs_Name s' \<noteq> ''db''"
    by (simp add: sample_pod_def)
  have h4: "find (\<lambda>x. cs_Name x = ''sidecar'') (ContainerStatuses (Status sample_pod)) = Some ?s
      \<and> \<not> cs_Ready ?s"
    by (simp add: sample_pod_def)
  have h3: "PodClient ?o = Some (sample_client sample_pod)
      \<and> sample_client sample_pod (Namespace ?o) (PodName ?o) = Inr sample_pod
      \<and> Phase (Status sample_pod) \<noteq> PodSucceeded \<and> Phase (Status sample_pod) \<noteq> PodFailed
      \<and> fst (Run_containerName ?o sample_pod sample_world) = Return ''sidecar''
      \<and> getContainerIdByName sample_pod ''sidecar'' = Inl (Errorf ''container sidecar id not ready'')"
    by (simp add: sample_options_def sample_client_def sample_pod_def PodSucceeded_def
        PodFailed_def Run_containerName_def getContainerIdByName_def)
  show ?thesis
    using resolution_failure [of sample_pod ?s "''sidecar''" "''db''" ?o "sample_client sample_pod"
        sample_world "''sidecar''" "Errorf ''container sidecar id not ready''" sample_env] h1 h2 h3 h4
    by (simp add: sample_pod_def)
qed

text \<open>
  Claim C5. For a pod in a debuggable phase that declares at least one container, with
  no container name requested (and a writer for the notice when there is one to write):
  the name selected is that of the first declared container, \<open>Run\<close> goes on to
  resolve that name, and among the events of the whole run the advisory notice occurs
  exactly once when the pod declares more than one container and not at all otherwise.
\<close>

theorem default_container:
  assumes "PodClient o0 = Some client"
    and "client (Namespace o0) (PodName o0) = Inr pod"
    and "Phase (Status pod) \<noteq> PodSucceeded" and "Phase (Status pod) \<noteq> PodFailed"
    and "ContainerName o0 = []"
    and "Containers (Spec pod) = c # cs"
    and "cs \<noteq> [] \<longrightarrow> ErrOut o0 = Some errOut"
  shows "fst (Run_containerName o0 pod w) = Return (ctr_Name c)
    \<and> (\<exists>w'. Run env o0 w =
           (case getContainerIdByName pod (ctr_Name c) of
              Inl err \<Rightarrow> (Return (Some err), o0, w')
            | Inr containerId \<Rightarrow>
                Run_session env o0 (HostIP (Status pod)) containerId
                  (emit (Stdout (''containerId:['' @ containerId @ '']\<newline>\<newline>'')) w')))
    \<and> (\<exists>evs. trace (snd (snd (Run env o0 w))) = trace w @ evs
          \<and> filter is_advisory evs =
              (if length (Containers (Spec pod)) > 1
               then [Fprint errOut (''Defaulting container name to '' @ ctr_Name c @ ''.''
                                      @ [CHR 0x0A, CHR 0x0D])]
               else []))"
proof -
  define w4 where "w4 = emit (Stdout (''hostIP:['' @ HostIP (Status pod) @ '']\<newline>\<newline>''))
                       (emit (StdoutDump ''pod:'')
                          (emit (GetPod (Namespace o0) (PodName o0))
                             (emit (Stdout ''run; function\<newline>'') w)))"
  define adv where "adv = (if cs = [] then []
     else [Fprint errOut (''Defaulting container name to '' @ ctr_Name c @ ''.''
                                      @ [CHR 0x0A, CHR 0x0D])])"
  define w5 where "w5 = snd (Run_containerName o0 pod w4)"
  have named: "Run_containerName o0 pod w4 = (Return (ctr_Name c), w5)"
    unfolding w5_def using Run_containerName_default [OF assms(5-7)] by simp
  have w5: "trace w5 = trace w @ [Stdout ''run; function\<newline>'', GetPod (Namespace o0) (PodName o0),
                StdoutDump ''pod:'',
                Stdout (''hostIP:['' @ HostIP (Status pod) @ '']\<newline>\<newline>'')] @ adv"
    unfolding w5_def adv_def w4_def Run_containerName_default [OF assms(5-7)]
    by (simp add: Run_prefix_trace emit_def)
  have adv: "filter is_advisory adv = adv"
    by (simp add: adv_def)
  have run: "Run env o0 w =
           (case getContainerIdByName pod (ctr_Name c) of
              Inl err \<Rightarrow> (Return (Some err), o0, w5)
            | Inr containerId \<Rightarrow>
                Run_session env o0 (HostIP (Status pod)) containerId
                  (emit (Stdout (''containerId:['' @ containerId @ '']\<newline>\<newline>'')) w5))"
    unfolding Run_debuggable [OF assms(1-4)] Let_def w4_def [symmetric] named
      fst_conv snd_conv outcome.case by (rule refl)
  have first: "fst (Run_containerName o0 pod w) = Return (ctr_Name c)"
    using Run_containerName_default [OF assms(5-7)] by simp
  have "\<exists>evs. trace (snd (snd (Run env o0 w))) = trace w5 @ evs \<and> filter is_advisory evs = []"
  proof (cases "getContainerIdByName pod (ctr_Name c)")
    case (Inl err)
    then show ?thesis by (simp add: run)
  next
    case (Inr containerId)
    obtain evs where "trace (snd (snd (Run_session env o0 (HostIP (Status pod)) containerId
                  (emit (Stdout (''containerId:['' @ containerId @ '']\<newline>\<newline>'')) w5))))
        = trace (emit (Stdout (''containerId:['' @ containerId @ '']\<newline>\<newline>'')) w5) @ evs"
      and "filter is_advisory evs = []"
      using Run_session_requests by blast
    then show ?thesis
      by (intro exI [of _ "Stdout (''containerId:['' @ containerId @ '']\<newline>\<newline>'') # evs"])
         (simp add: run Inr emit_def)
  qed
  then obtain evs where evs: "trace (snd (snd (Run env o0 w))) = trace w5 @ evs"
     "filter is_advisory evs = []" by blast
  have count: "\<exists>evs. trace (snd (snd (Run env o0 w))) = trace w @ evs
          \<and> filter is_advisory evs =
              (if length (Containers (Spec pod)) > 1
               then [Fprint errOut (''Defaulting container name to '' @ ctr_Name c @ ''.''
                                      @ [CHR 0x0A, CHR 0x0D])]
               else [])"
    by (intro exI [of _ "[Stdout ''run; function\<newline>'', GetPod (Namespace o0) (PodName o0),
                StdoutDump ''pod:'',
                Stdout (''hostIP:['' @ HostIP (Status pod) @ '']\<newline>\<newline>'')] @ adv @ evs"])
       (simp add: evs w5 adv assms(6), simp add: adv_def)
  from first run count show ?thesis by blast
qed

theorem default_container_witness:
  "ContainerName (sample_options sample_pod) = []
   \<and> Containers (Spec sample_pod) = \<lparr>ctr_Name = ''web''\<rparr> # [\<lparr>ctr_Name = ''sidecar''\<rparr>]
   \<and> ErrOut (sample_options sample_pod) = Some 2
   \<and> fst (Run_containerName (sample_options sample_pod) sample_pod sample_world) = Return ''web''
   \<and> (\<exists>evs. trace (snd (snd (Run sample_env (sample_options sample_pod) sample_world)))
               = trace sample_world @ evs
          \<and> filter is_advisory evs
              = [Fprint 2 (''Defaulting container name to web.'' @ [CHR 0x0A, CHR 0x0D])])"
proof -
  let ?o = "sample_options sample_pod"
  have h1: "PodClient ?o = Some (sample_client sample_pod)"
    by (simp add: sample_options_def)
  have h2: "sample_client sample_pod (Namespace ?o) (PodName ?o) = Inr sample_pod"
    by (simp add: sample_options_def sample_client_def)
  have h3: "Phase (Status sample_pod) \<noteq> PodSucceeded" and h4: "Phase (Status sample_pod) \<noteq> PodFailed"
    by (simp_all add: sample_pod_def PodSucceeded_def PodFailed_def)
  have h5: "ContainerName ?o = []"
    by (simp add: sample_options_def NewDebugOptions_def)
  have h6: "Containers (Spec sample_pod) = \<lparr>ctr_Name = ''web''\<rparr> # [\<lparr>ctr_Name = ''sidecar''\<rparr>]"
    by (simp add: sample_pod_def)
  have h7: "[\<lparr>ctr_Name = ''sidecar''\<rparr>] \<noteq> [] \<longrightarrow> ErrOut ?o = Some 2"
    by (simp add: sample_options_def NewDebugOptions_def)
  show ?thesis
    using default_container [OF h1 h2 h3 h4 h5 h6 h7, of sample_world sample_env] h5 h6 h7
    by simp
qed

text \<open>
  Claim C9. With no container name requested, the first declared container is read
  without a guard: selecting the name panics with an index out of range exactly when the
  pod declares no container, and then so does \<open>Run\<close>.
\<close>

theorem first_container_unguarded:
  assumes "ContainerName o0 = []"
  shows "((fst (Run_containerName o0 pod w) = Panic index_out_of_range) = (Containers (Spec pod) = []))
    \<and> (PodClient o0 = Some client \<and> client (Namespace o0) (PodName o0) = Inr pod
        \<and> Phase (Status pod) \<noteq> PodSucceeded \<and> Phase (Status pod) \<noteq> PodFailed
        \<and> Containers (Spec pod) = []
       \<longrightarrow> fst (Run env o0 w) = Panic index_out_of_range)"
proof (intro conjI impI)
  show "(fst (Run_containerName o0 pod w) = Panic index_out_of_range) = (Containers (Spec pod) = [])"
    using assms
    by (auto simp: Run_containerName_def Let_def nil_dereference_def index_out_of_range_def
        split: option.splits list.splits)
next
  assume a: "PodClient o0 = Some client \<and> client (Namespace o0) (PodName o0) = Inr pod
        \<and> Phase (Status pod) \<noteq> PodSucceeded \<and> Phase (Status pod) \<noteq> PodFailed
        \<and> Containers (Spec pod) = []"
  then have "fst (Run_containerName o0 pod w') = Panic index_out_of_range" for w'
    using assms by (simp add: Run_containerName_def Let_def)
  then show "fst (Run env o0 w) = Panic index_out_of_range"
    using a by (simp add: Run_debuggable [of o0 client pod env w] Let_def)
qed

theorem first_container_unguarded_witness:
  "ContainerName (sample_options empty_pod) = []
   \<and> Containers (Spec empty_pod) = []
   \<and> fst (Run_containerName (sample_options empty_pod) empty_pod sample_world)
       = Panic index_out_of_range
   \<and> fst (Run sample_env (sample_options empty_pod) sample_world) = Panic index_out_of_range
   \<and> fst (Run_containerName (sample_options sample_pod) sample_pod sample_world)
       \<noteq> Panic index_out_of_range"
proof -
  have h: "ContainerName (sample_options empty_pod) = []"
    "ContainerName (sample_options sample_pod) = []"
    by (simp_all add: sample_options_def NewDebugOptions_def)
  have e: "Containers (Spec empty_pod) = []" "Containers (Spec sample_pod) \<noteq> []"
    by (simp_all add: empty_pod_def sample_pod_def)
  have r: "PodClient (sample_options empty_pod) = Some (sample_client empty_pod)
     \<and> sample_client empty_pod (Namespace (sample_options empty_pod))
          (PodName (sample_options empty_pod)) = Inr empty_pod
     \<and> Phase (Status empty_pod) \<noteq> PodSucceeded \<and> Phase (Status empty_pod) \<noteq> PodFailed"
    by (simp add: sample_options_def sample_client_def empty_pod_def sample_pod_def
        PodSucceeded_def PodFailed_def)
  show ?thesis
    using first_container_unguarded [OF h(1), of empty_pod sample_world "sample_client empty_pod" sample_env]
      first_container_unguarded [OF h(2), of sample_pod sample_world "sample_client sample_pod" sample_env]
      h e r
    by simp
qed

subsection \<open>The request to the agent\<close>

text \<open>
  Claim C6. After a successful resolution the requests handed to the transport during
  \<open>Run\<close> are exactly one (none if the URL does not parse): method POST, the URL
  parsed from \<open>http://hostIP:agentPort\<close> with the host address of the pod status,
  its path set to \<open>/api/v1/debug\<close> and its query the encoding of exactly three
  parameters: \<open>image\<close>, \<open>container\<close> (the container id of the ready status
  that matches the name, unchanged) and \<open>command\<close> (the JSON array of the command
  vector).
\<close>

theorem debug_request:
  assumes "PodClient o0 = Some client"
    and "client (Namespace o0) (PodName o0) = Inr pod"
    and "Phase (Status pod) \<noteq> PodSucceeded" and "Phase (Status pod) \<noteq> PodFailed"
    and "fst (Run_containerName o0 pod w) = Return n"
    and "getContainerIdByName pod n = Inr cid"
  shows "(\<exists>s \<in> set (ContainerStatuses (Status pod)).
            cs_Name s = n \<and> cs_Ready s \<and> cs_ContainerID s = cid)
    \<and> (\<exists>evs. trace (snd (snd (Run env o0 w))) = trace w @ evs
          \<and> filter request_event evs =
             (case url_Parse env (''http://'' @ HostIP (Status pod) @ '':'' @ sprint_d (AgentPort o0)) of
                Inl err \<Rightarrow> []
              | Inr u \<Rightarrow>
                  [NewSPDYExecutor (Config_opt o0) ''POST''
                     (u\<lparr>Path := ''/api/v1/debug'',
                        RawQuery := Values_Encode env
                          [''image'' \<mapsto> [Image_opt o0], ''container'' \<mapsto> [cid],
                           ''command'' \<mapsto> [json_array (Command o0)]]\<rparr>)]))"
proof
  show "\<exists>s \<in> set (ContainerStatuses (Status pod)).
            cs_Name s = n \<and> cs_Ready s \<and> cs_ContainerID s = cid"
    using assms(6) unfolding getContainerIdByName_def by (rule find_status_found)
next
  define w4 where "w4 = emit (Stdout (''hostIP:['' @ HostIP (Status pod) @ '']\<newline>\<newline>''))
                       (emit (StdoutDump ''pod:'')
                          (emit (GetPod (Namespace o0) (PodName o0))
                             (emit (Stdout ''run; function\<newline>'') w)))"
  define w5 where "w5 = snd (Run_containerName o0 pod w4)"
  define w6 where "w6 = emit (Stdout (''containerId:['' @ cid @ '']\<newline>\<newline>'')) w5"
  have "fst (Run_containerName o0 pod w4) = Return n"
    using assms(5) Run_containerName_fst [of o0 pod w4 w] by simp
  then have run: "Run env o0 w = Run_session env o0 (HostIP (Status pod)) cid w6"
    unfolding Run_debuggable [OF assms(1-4)] Let_def w4_def [symmetric] w6_def w5_def
    by (simp add: assms(6))
  obtain pre where pre: "trace w5 = trace w4 @ pre" "filter agent_event pre = []"
    unfolding w5_def using Run_containerName_trace [of o0 pod w4] by blast
  have pre_req: "filter request_event pre = []"
    using pre(2) by (induction pre) (auto split: if_splits elim: request_event.elims)
  obtain evs where evs: "trace (snd (snd (Run_session env o0 (HostIP (Status pod)) cid w6))) = trace w6 @ evs"
     "filter request_event evs =
             (case url_Parse env (''http://'' @ HostIP (Status pod) @ '':'' @ sprint_d (AgentPort o0)) of
                Inl err \<Rightarrow> []
              | Inr u \<Rightarrow>
                  [NewSPDYExecutor (Config_opt o0) ''POST''
                     (u\<lparr>Path := ''/api/v1/debug'',
                        RawQuery := Values_Encode env
                          [''image'' \<mapsto> [Image_opt o0], ''container'' \<mapsto> [cid],
                           ''command'' \<mapsto> [json_array (Command o0)]]\<rparr>)])"
    using Run_session_requests [of env o0 "HostIP (Status pod)" cid w6] by blast
  have tw6: "trace w6 = trace w @ [Stdout ''run; function\<newline>'', GetPod (Namespace o0) (PodName o0),
                StdoutDump ''pod:'',
                Stdout (''hostIP:['' @ HostIP (Status pod) @ '']\<newline>\<newline>'')] @ pre
                @ [Stdout (''containerId:['' @ cid @ '']\<newline>\<newline>'')]"
    by (simp add: w6_def pre(1) w4_def emit_def)
  show "\<exists>evs. trace (snd (snd (Run env o0 w))) = trace w @ evs
          \<and> filter request_event evs =
             (case url_Parse env (''http://'' @ HostIP (Status pod) @ '':'' @ sprint_d (AgentPort o0)) of
                Inl err \<Rightarrow> []
              | Inr u \<Rightarrow>
                  [NewSPDYExecutor (Config_opt o0) ''POST''
                     (u\<lparr>Path := ''/api/v1/debug'',
                        RawQuery := Values_Encode env
                          [''image'' \<mapsto> [Image_opt o0], ''container'' \<mapsto> [cid],
                           ''command'' \<mapsto> [json_array (Command o0)]]\<rparr>)])"
    by (intro exI [of _ "[Stdout ''run; function\<newline>'', GetPod (Namespace o0) (PodName o0),
                StdoutDump ''pod:'',
                Stdout (''hostIP:['' @ HostIP (Status pod) @ '']\<newline>\<newline>'')] @ pre
                @ [Stdout (''containerId:['' @ cid @ '']\<newline>\<newline>'')] @ evs"])
       (simp add: run evs tw6 pre_req)
qed

theorem debug_request_witness:
  "PodClient (sample_options sample_pod) = Some (sample_client sample_pod)
   \<and> sample_client sample_pod (Namespace (sample_options sample_pod))
        (PodName (sample_options sample_pod)) = Inr sample_pod
   \<and> Phase (Status sample_pod) \<noteq> PodSucceeded \<and> Phase (Status sample_pod) \<noteq> PodFailed
   \<and> fst (Run_containerName (sample_options sample_pod) sample_pod sample_world) = Return ''web''
   \<and> getContainerIdByName sample_pod ''web'' = Inr ''docker://abc''
   \<and> (\<exists>evs. trace (snd (snd (Run sample_env (sample_options sample_pod) sample_world)))
               = trace sample_world @ evs
          \<and> filter request_event evs =
              [NewSPDYExecutor (Some 1) ''POST''
                 \<lparr>Scheme = ''http'', Host = ''10.0.0.5:10027'', Path = ''/api/v1/debug'',
                  RawQuery = ''command=['' @ [CHR 0x22] @ ''bash'' @ [CHR 0x22]
                    @ '']&container=docker://abc&image=nicolaka/netshoot:latest&''\<rparr>])"
proof -
  let ?o = "sample_options sample_pod"
  have h1: "PodClient ?o = Some (sample_client sample_pod)"
    by (simp add: sample_options_def)
  have h2: "sample_client sample_pod (Namespace ?o) (PodName ?o) = Inr sample_pod"
    by (simp add: sample_options_def sample_client_def)
  have h3: "Phase (Status sample_pod) \<noteq> PodSucceeded" and h4: "Phase (Status sample_pod) \<noteq> PodFailed"
    by (simp_all add: sample_pod_def PodSucceeded_def PodFailed_def)
  have h5: "fst (Run_containerName ?o sample_pod sample_world) = Return ''web''"
    by (simp add: Run_containerName_def sample_options_def NewDebugOptions_def sample_pod_def)
  have h6: "getContainerIdByName sample_pod ''web'' = Inr ''docker://abc''"
    by (simp add: getContainerIdByName_def sample_pod_def)
  have v: "url_Parse sample_env (''http://'' @ HostIP (Status sample_pod) @ '':''
              @ sprint_d (AgentPort ?o))
           = Inr \<lparr>Scheme = ''http'', Host = ''10.0.0.5:10027'', Path = [], RawQuery = []\<rparr>"
    by (simp add: sample_env_def sample_pod_def sample_options_def defaultAgentPort_def
        sprint_d_def digits.simps)
  have q: "Values_Encode sample_env
             [''image'' \<mapsto> [Image_opt ?o], ''container'' \<mapsto> [''docker://abc''],
              ''command'' \<mapsto> [json_array (Command ?o)]]
           = ''command=['' @ [CHR 0x22] @ ''bash'' @ [CHR 0x22]
                    @ '']&container=docker://abc&image=nicolaka/netshoot:latest&''"
    by (simp add: sample_env_def sample_options_def defaultImage_def json_array_def
        json_string_def htmlSafe_def byte_def)
  have c: "Config_opt ?o = Some 1"
    by (simp add: sample_options_def)
  have r: "\<exists>evs. trace (snd (snd (Run sample_env ?o sample_world))) = trace sample_world @ evs
          \<and> filter request_event evs =
              [NewSPDYExecutor (Some 1) ''POST''
                 \<lparr>Scheme = ''http'', Host = ''10.0.0.5:10027'', Path = ''/api/v1/debug'',
                  RawQuery = ''command=['' @ [CHR 0x22] @ ''bash'' @ [CHR 0x22]
                    @ '']&container=docker://abc&image=nicolaka/netshoot:latest&''\<rparr>]"
    using debug_request [OF h1 h2 h3 h4 h5 h6, of sample_env, THEN conjunct2]
    unfolding v q c by simp
  show ?thesis
    using h1 h2 h3 h4 h5 h6 r by blast
qed

subsection \<open>Completing the options\<close>

lemma Complete_defaults_fields:
  "Command (Complete_defaults config rest_args o3) =
     (if rest_args \<noteq> [] then rest_args
      else if cfg_Command config \<noteq> [] then cfg_Command config
      else [''bash''])"
  "Image_opt (Complete_defaults config rest_args o3) =
     (if Image_opt o3 \<noteq> [] then Image_opt o3
      else if cfg_Image config \<noteq> [] then cfg_Image config
      else ''nicolaka/netshoot:latest'')"
  "AgentPort (Complete_defaults config rest_args o3) =
     (if 1 \<le> AgentPort o3 then AgentPort o3
      else if 0 < cfg_AgentPort config then cfg_AgentPort config
      else 10027)"
  by (simp_all add: Complete_defaults_def Let_def defaultImage_def defaultAgentPort_def)

lemma Complete_defaults_other:
  "Config_opt (Complete_defaults config rest_args o3) = Config_opt o3"
  "PodClient (Complete_defaults config rest_args o3) = PodClient o3"
  by (simp_all add: Complete_defaults_def Let_def)

lemma Complete_error_independent:
  "fst (Complete (env\<lparr>LoadFile := load1\<rparr>) args o0 w)
     = fst (Complete (env\<lparr>LoadFile := load2\<rparr>) args o0 w)"
  by (simp add: Complete_def Let_def split: list.splits option.splits sum.splits)

lemma Complete_empty_substituted:
  "fst (snd (Complete (env\<lparr>LoadFile := (\<lambda>path. Inl err)\<rparr>) args o0 w))
     = fst (snd (Complete (env\<lparr>LoadFile := (\<lambda>path. Inr empty_Config)\<rparr>) args o0 w))"
  by (simp add: Complete_def Let_def split: list.splits option.splits sum.splits)

lemma Complete_precedence:
  assumes "fst (Complete env args o0 w) = None"
    and "config = (case LoadFile env
                      (if ConfigLocation o0 = []
                       then (case user_Current env of
                               Inr homeDir \<Rightarrow> homeDir @ ''/.kube/debug-config''
                             | Inl err \<Rightarrow> ConfigLocation o0)
                       else ConfigLocation o0) of
                      Inl err \<Rightarrow> empty_Config
                    | Inr c \<Rightarrow> c)"
    and "o' = fst (snd (Complete env args o0 w))"
  shows "Command o' = (if tl args \<noteq> [] then tl args
                              else if cfg_Command config \<noteq> [] then cfg_Command config
                              else [''bash''])
    \<and> Image_opt o' = (if Image_opt o0 \<noteq> [] then Image_opt o0
                                else if cfg_Image config \<noteq> [] then cfg_Image config
                                else ''nicolaka/netshoot:latest'')
    \<and> AgentPort o' = (if 1 \<le> AgentPort o0 then AgentPort o0
                                else if 0 < cfg_AgentPort config then cfg_AgentPort config
                                else 10027)"
proof -
  obtain pod_arg rest_args where args: "args = pod_arg # rest_args"
    using assms(1) by (cases args) (simp_all add: Complete_def Let_def)
  have ns: "snd (loader_Namespace env) = None"
    using assms(1) unfolding args
    by (cases "snd (loader_Namespace env)") (simp_all add: Complete_def Let_def)
  have cc: "snd (loader_ClientConfig env) = None"
    using assms(1) ns unfolding args
    by (cases "snd (loader_ClientConfig env)") (simp_all add: Complete_def Let_def)
  define o3 where "o3 = o0\<lparr>Args := args, Namespace := fst (loader_Namespace env), PodName := pod_arg\<rparr>"
  have path: "Complete_configFile env o3 = (if ConfigLocation o0 = []
                       then (case user_Current env of
                               Inr homeDir \<Rightarrow> homeDir @ ''/.kube/debug-config''
                             | Inl err \<Rightarrow> ConfigLocation o0)
                       else ConfigLocation o0)"
    by (simp add: Complete_configFile_def o3_def defaultConfigLocation_def Let_def split: sum.splits)
  have config: "config = (case LoadFile env (Complete_configFile env o3) of
                      Inl err \<Rightarrow> empty_Config | Inr c \<Rightarrow> c)"
    unfolding path by (rule assms(2))
  obtain client where cl: "NewForConfig env (fst (loader_ClientConfig env)) = Inr client"
    using assms(1) ns cc unfolding args
    by (cases "NewForConfig env (fst (loader_ClientConfig env))")
       (simp_all add: Complete_def Let_def Complete_defaults_other)
  have o': "o' = (Complete_defaults config rest_args o3)
                   \<lparr>Config_opt := fst (loader_ClientConfig env), PodClient := Some client\<rparr>"
    unfolding assms(3) args config o3_def
    by (simp add: Complete_def Let_def ns cc cl Complete_defaults_other args)
  show ?thesis
    unfolding o' by (simp add: Complete_defaults_fields args o3_def)
qed

text \<open>
  Claim C10. Whether \<open>Complete\<close> fails does not depend on what loading the config
  file returns, and a load error leaves the same options as an empty config. After a
  successful \<open>Complete\<close> the command is the arguments after the pod name, else the
  config file's command, else \<open>bash\<close>; the image is the flag's, else the config
  file's, else the default image; the port is the flag's when positive, else the config
  file's when positive, else 10027; so the command and the image are not empty and the
  port is positive.
\<close>

theorem Complete_config_defaults:
  "fst (Complete (env\<lparr>LoadFile := load1\<rparr>) args o0 w)
     = fst (Complete (env\<lparr>LoadFile := load2\<rparr>) args o0 w)
   \<and> fst (snd (Complete (env\<lparr>LoadFile := (\<lambda>path. Inl err)\<rparr>) args o0 w))
       = fst (snd (Complete (env\<lparr>LoadFile := (\<lambda>path. Inr empty_Config)\<rparr>) args o0 w))
   \<and> (fst (Complete env args o0 w) = None
       \<and> config = (case LoadFile env
                      (if ConfigLocation o0 = []
                       then (case user_Current env of
                               Inr homeDir \<Rightarrow> homeDir @ ''/.kube/debug-config''
                             | Inl err \<Rightarrow> ConfigLocation o0)
                       else ConfigLocation o0) of
                      Inl err \<Rightarrow> empty_Config
                    | Inr c \<Rightarrow> c)
       \<and> o' = fst (snd (Complete env args o0 w))
      \<longrightarrow> Command o' = (if tl args \<noteq> [] then tl args
                         else if cfg_Command config \<noteq> [] then cfg_Command config
                         else [''bash''])
        \<and> Image_opt o' = (if Image_opt o0 \<noteq> [] then Image_opt o0
                           else if cfg_Image config \<noteq> [] then cfg_Image config
                           else ''nicolaka/netshoot:latest'')
        \<and> AgentPort o' = (if 1 \<le> AgentPort o0 then AgentPort o0
                           else if 0 < cfg_AgentPort config then cfg_AgentPort config
                           else 10027)
        \<and> Command o' \<noteq> [] \<and> Image_opt o' \<noteq> [] \<and> 0 < AgentPort o')"
proof (intro conjI impI)
  show "fst (Complete (env\<lparr>LoadFile := load1\<rparr>) args o0 w)
     = fst (Complete (env\<lparr>LoadFile := load2\<rparr>) args o0 w)"
    by (rule Complete_error_independent)
  show "fst (snd (Complete (env\<lparr>LoadFile := (\<lambda>path. Inl err)\<rparr>) args o0 w))
       = fst (snd (Complete (env\<lparr>LoadFile := (\<lambda>path. Inr empty_Config)\<rparr>) args o0 w))"
    by (rule Complete_empty_substituted)
next
  assume a: "fst (Complete env args o0 w) = None
       \<and> config = (case LoadFile env
                      (if ConfigLocation o0 = []
                       then (case user_Current env of
                               Inr homeDir \<Rightarrow> homeDir @ ''/.kube/debug-config''
                             | Inl err \<Rightarrow> ConfigLocation o0)
                       else ConfigLocation o0) of
                      Inl err \<Rightarrow> empty_Config
                    | Inr c \<Rightarrow> c)
       \<and> o' = fst (snd (Complete env args o0 w))"
  note p = Complete_precedence [OF a [THEN conjunct1] a [THEN conjunct2, THEN conjunct1]
      a [THEN conjunct2, THEN conjunct2]]
  show "Command o' = (if tl args \<noteq> [] then tl args
                         else if cfg_Command config \<noteq> [] then cfg_Command config
                         else [''bash''])"
    using p by blast
  show "Image_opt o' = (if Image_opt o0 \<noteq> [] then Image_opt o0
                           else if cfg_Image config \<noteq> [] then cfg_Image config
                           else ''nicolaka/netshoot:latest'')"
    using p by blast
  show "AgentPort o' = (if 1 \<le> AgentPort o0 then AgentPort o0
                           else if 0 < cfg_AgentPort config then cfg_AgentPort config
                           else 10027)"
    using p by blast
  show "Command o' \<noteq> []" using p by (simp split: if_splits)
  show "Image_opt o' \<noteq> []" using p by (simp split: if_splits)
  show "0 < AgentPort o'" using p by (simp split: if_splits)
qed

theorem Complete_config_defaults_witness:
  "fst (Complete sample_env [''mypod''] (NewDebugOptions (Some 0) (Some 1) (Some 2)) sample_world) = None
   \<and> LoadFile sample_env ''/home/op/.kube/debug-config'' = Inl (Errorf ''no such file'')
   \<and> Command (fst (snd (Complete sample_env [''mypod'']
                           (NewDebugOptions (Some 0) (Some 1) (Some 2)) sample_world))) = [''bash'']
   \<and> Image_opt (fst (snd (Complete sample_env [''mypod'']
                           (NewDebugOptions (Some 0) (Some 1) (Some 2)) sample_world)))
       = ''nicolaka/netshoot:latest''
   \<and> AgentPort (fst (snd (Complete sample_env [''mypod'']
                           (NewDebugOptions (Some 0) (Some 1) (Some 2)) sample_world))) = 10027"
proof -
  let ?o = "NewDebugOptions (Some 0) (Some 1) (Some 2)"
  have h1: "fst (Complete sample_env [''mypod''] ?o sample_world) = None"
    by (simp add: Complete_def Let_def sample_env_def)
  have h2: "empty_Config = (case LoadFile sample_env
                      (if ConfigLocation ?o = []
                       then (case user_Current sample_env of
                               Inr homeDir \<Rightarrow> homeDir @ ''/.kube/debug-config''
                             | Inl err \<Rightarrow> ConfigLocation ?o)
                       else ConfigLocation ?o) of
                      Inl err \<Rightarrow> empty_Config
                    | Inr c \<Rightarrow> c)"
    by (simp add: sample_env_def NewDebugOptions_def)
  have h3: "LoadFile sample_env ''/home/op/.kube/debug-config'' = Inl (Errorf ''no such file'')"
    by (simp add: sample_env_def)
  have h: "fst (Complete sample_env [''mypod''] ?o sample_world) = None
       \<and> empty_Config = (case LoadFile sample_env
                      (if ConfigLocation ?o = []
                       then (case user_Current sample_env of
                               Inr homeDir \<Rightarrow> homeDir @ ''/.kube/debug-config''
                             | Inl err \<Rightarrow> ConfigLocation ?o)
                       else ConfigLocation ?o) of
                      Inl err \<Rightarrow> empty_Config
                    | Inr c \<Rightarrow> c)
       \<and> fst (snd (Complete sample_env [''mypod''] ?o sample_world))
           = fst (snd (Complete sample_env [''mypod''] ?o sample_world))"
    using h1 h2 by blast
  note c = Complete_config_defaults [where env = sample_env and args = "[''mypod'']" and ?o0.0 = ?o
        and w = sample_world and config = empty_Config
        and o' = "fst (snd (Complete sample_env [''mypod''] ?o sample_world))"
        and ?load1.0 = "LoadFile sample_env" and ?load2.0 = "LoadFile sample_env"
        and err = "Errorf ''no such file''",
        THEN conjunct2, THEN conjunct2, THEN mp, OF h]
  show ?thesis
    using c h1 h3 by (simp add: empty_Config_def NewDebugOptions_def)
qed

subsection \<open>The command handler\<close>

text \<open>
  Claim C7, evaluated on the invocation without a pod argument, whatever the flags.
  \<open>Complete\<close> fails and its error is printed; the handler goes on: \<open>Validate\<close>
  fails and its error is printed too; \<open>Run\<close> is still called, and panics on the pod
  client that \<open>Complete\<close> never set.
\<close>

theorem handler_without_pod_argument:
  "handler env []
     ((NewDebugOptions stdin stdout stderr)
        \<lparr>Image_opt := img, ContainerName := cname, AgentPort := port,
         ConfigLocation := location\<rparr>) w =
     (Panic nil_dereference,
      (NewDebugOptions stdin stdout stderr)
        \<lparr>Image_opt := img, ContainerName := cname, AgentPort := port,
         ConfigLocation := location, Args := []\<rparr>,
      w\<lparr>trace := trace w @
           [Stdout ''hello i'm here, in cmd/ newDebugCmd\<newline>'',
            Stdout ''hello i'm here, in cmd/ newDebugCmd / Complete\<newline>'',
            Stdout ''error pod not specified\<newline>'',
            Stdout ''pod name must be specified\<newline>'',
            Stdout ''run; function\<newline>'']\<rparr>)"
  by (simp add: handler_def Complete_def Validate_def Run_def report_def emit_def Let_def
      NewDebugOptions_def)

subsection \<open>A session whose input is not a terminal\<close>

text \<open>
  Claim C2, evaluated on an input stream that is no terminal. \<open>setupTTY\<close> writes
  "Unable to use a TTY" and returns with \<open>Raw\<close> still set, so \<open>Run\<close> asks for
  the terminal size to be monitored, drops the error stream, and hands the transport a
  stream with the tty flag set and no separate error stream.
\<close>

theorem session_with_piped_input:
  "Run (sample_env\<lparr>IsTerminal := (\<lambda>s. False)\<rparr>)
       ((sample_options sample_pod)\<lparr>ContainerName := ''web''\<rparr>) sample_world =
     (Return None,
      (sample_options sample_pod)\<lparr>ContainerName := ''web'', ErrOut := None\<rparr>,
      sample_world\<lparr>trace :=
        [Stdout ''run; function\<newline>'',
         GetPod ''default'' ''mypod'',
         StdoutDump ''pod:'',
         Stdout ''hostIP:[10.0.0.5]\<newline>\<newline>'',
         Stdout ''containerId:[docker://abc]\<newline>\<newline>'',
         Fprint 2 ''Unable to use a TTY - input is not a terminal or the right kind of file\<newline>'',
         MonitorSize \<lparr>tty_In = Some 0, tty_Out = Some 1, tty_Raw = True\<rparr>,
         NewSPDYExecutor (Some 1) ''POST''
           \<lparr>Scheme = ''http'', Host = ''10.0.0.5:10027'', Path = ''/api/v1/debug'',
            RawQuery = ''command=['' @ [CHR 0x22] @ ''bash'' @ [CHR 0x22]
                         @ '']&container=docker://abc&image=nicolaka/netshoot:latest&''\<rparr>,
         Stream
           \<lparr>ex_config = Some 1, ex_method = ''POST'',
            ex_url = \<lparr>Scheme = ''http'', Host = ''10.0.0.5:10027'', Path = ''/api/v1/debug'',
                      RawQuery = ''command=['' @ [CHR 0x22] @ ''bash'' @ [CHR 0x22]
                         @ '']&container=docker://abc&image=nicolaka/netshoot:latest&''\<rparr>\<rparr>
           \<lparr>so_Stdin = Some 0, so_Stdout = Some 1, so_Stderr = None, so_Tty = True,
            so_TerminalSizeQueue = Some 7\<rparr>]\<rparr>)"
  by (simp add: Run_def Run_containerName_def getContainerIdByName_def Run_session_def
      setupTTY_def Safe_def Run_fn_def remoteExecute_def json_Marshal_def json_array_def
      json_string_def htmlSafe_def byte_def Add_def emit_def Let_def sprint_d_def digits.simps
      sample_env_def sample_options_def sample_pod_def sample_client_def sample_world_def
      NewDebugOptions_def defaultImage_def defaultAgentPort_def PodSucceeded_def PodFailed_def)

end
